theory Spec2Isabelle
  imports Main
begin

section \<open>The booking endpoint of server.js\<close>

text \<open>
  The program is one Express handler, \<^verbatim>\<open>app.post('/api/book', ...)\<close>, with two helpers,
  \<^verbatim>\<open>toISO\<close> and \<^verbatim>\<open>isAvailable\<close>. The handler talks to three external clients (Google
  Calendar, Firestore, Twilio). The model makes every call to a client an entry of a trace,
  in the order the calls are made, and takes the answer of each call (a value or a thrown
  error) from a record of the clients' behaviour. An exception is the left summand of a
  sum; the handler's \<^verbatim>\<open>try/catch\<close> turns it into the 500 response.
\<close>

subsection \<open>JavaScript values of the request body\<close>

text \<open>
  A field of \<^verbatim>\<open>req.body\<close> (parsed JSON) is absent (\<^verbatim>\<open>undefined\<close>), \<^verbatim>\<open>null\<close>, a boolean, a
  number or a string. Numbers are the integers a double holds exactly; arrays, objects and
  fractional numbers are outside the model. Strings are byte lists (UTF-8).
\<close>

datatype jsval = JUndefined | JNull | JBool bool | JNum int | JStr string

text \<open>ToBoolean, as the operators \<^verbatim>\<open>!\<close> and \<^verbatim>\<open>||\<close> apply it.\<close>

fun truthy :: "jsval \<Rightarrow> bool" where
  "truthy JUndefined = False"
| "truthy JNull = False"
| "truthy (JBool b) = b"
| "truthy (JNum n) = (n \<noteq> 0)"
| "truthy (JStr s) = (s \<noteq> [])"

text \<open>The decimal digits of a natural number, as Number::toString prints an integer.\<close>

function decimal :: "nat \<Rightarrow> string" where
  "decimal n =
     (if n < 10 then [char_of (48 + n)]
      else decimal (n div 10) @ [char_of (48 + n mod 10)])"
  by pat_completeness auto
termination
  by (relation "measure (\<lambda>n. n)") auto

text \<open>ToString, as a template literal applies it to an interpolated value.\<close>

fun ToString :: "jsval \<Rightarrow> string" where
  "ToString JUndefined = ''undefined''"
| "ToString JNull = ''null''"
| "ToString (JBool b) = (if b then ''true'' else ''false'')"
| "ToString (JNum n) = (if n < 0 then ''-'' @ decimal (nat (- n)) else decimal (nat n))"
| "ToString (JStr s) = s"

text \<open>\<^verbatim>\<open>String.prototype.startsWith\<close> with a search string.\<close>

definition startsWith :: "string \<Rightarrow> string \<Rightarrow> bool" where
  "startsWith s t = (take (length t) s = t)"

subsection \<open>The runtime: Date and Number\<close>

text \<open>
  What the JavaScript runtime decides and the source does not: the time value
  \<^verbatim>\<open>new Date(s)\<close> gives for a string (\<open>None\<close> for an Invalid Date), the offset of the
  process's local time zone in milliseconds (LocalTZA of ECMA-262, for a UTC time value when
  the flag is \<open>True\<close> and for a local one when it is \<open>False\<close>), and the number a string
  converts to (\<open>None\<close> for NaN).
\<close>

record runtime =
  date_parse :: "string \<Rightarrow> int option"
  local_tza :: "int \<Rightarrow> bool \<Rightarrow> int"
  string_to_number :: "string \<Rightarrow> int option"

text \<open>
  A number is \<open>Some n\<close> or \<open>None\<close> for NaN; a Date object is its time value, milliseconds
  since the epoch, \<open>None\<close> for an Invalid Date.
\<close>

fun Number :: "runtime \<Rightarrow> jsval \<Rightarrow> int option" where
  "Number rt JUndefined = None"
| "Number rt JNull = Some 0"
| "Number rt (JBool b) = Some (if b then 1 else 0)"
| "Number rt (JNum n) = Some n"
| "Number rt (JStr s) = string_to_number rt s"

definition js_plus :: "int option \<Rightarrow> int option \<Rightarrow> int option" where
  "js_plus a b = (case a of None \<Rightarrow> None | Some x \<Rightarrow> (case b of None \<Rightarrow> None | Some y \<Rightarrow> Some (x + y)))"

definition msPerDay :: int where "msPerDay = 86400000"
definition msPerHour :: int where "msPerHour = 3600000"
definition msPerMinute :: int where "msPerMinute = 60000"
definition msPerSecond :: int where "msPerSecond = 1000"

definition Day :: "int \<Rightarrow> int" where
  "Day t = t div msPerDay"

definition HourFromTime :: "int \<Rightarrow> int" where
  "HourFromTime t = (t div msPerHour) mod 24"

definition MinFromTime :: "int \<Rightarrow> int" where
  "MinFromTime t = (t div msPerMinute) mod 60"

definition SecFromTime :: "int \<Rightarrow> int" where
  "SecFromTime t = (t div msPerSecond) mod 60"

definition msFromTime :: "int \<Rightarrow> int" where
  "msFromTime t = t mod msPerSecond"

definition MakeTime :: "int \<Rightarrow> int \<Rightarrow> int \<Rightarrow> int \<Rightarrow> int" where
  "MakeTime hour minute sec ms = hour * msPerHour + minute * msPerMinute + sec * msPerSecond + ms"

definition MakeDate :: "int \<Rightarrow> int \<Rightarrow> int" where
  "MakeDate day tm = day * msPerDay + tm"

definition LocalTime :: "runtime \<Rightarrow> int \<Rightarrow> int" where
  "LocalTime rt t = t + local_tza rt t True"

definition UTC :: "runtime \<Rightarrow> int \<Rightarrow> int" where
  "UTC rt t = t - local_tza rt t False"

definition TimeClip :: "int \<Rightarrow> int option" where
  "TimeClip t = (if \<bar>t\<bar> > 8640000000000000 then None else Some t)"

text \<open>\<^verbatim>\<open>Date.prototype.getMinutes\<close>: the minute of the local time, NaN for an Invalid Date.\<close>

definition getMinutes :: "runtime \<Rightarrow> int option \<Rightarrow> int option" where
  "getMinutes rt tv = (case tv of None \<Rightarrow> None | Some t \<Rightarrow> Some (MinFromTime (LocalTime rt t)))"

text \<open>
  \<^verbatim>\<open>Date.prototype.setMinutes(min)\<close>: the new time value of the Date. The minute is
  replaced in the local time, and the local time is taken back to UTC.
\<close>

definition setMinutes :: "runtime \<Rightarrow> int option \<Rightarrow> int option \<Rightarrow> int option" where
  "setMinutes rt tv m =
     (case tv of None \<Rightarrow> None
      | Some t \<Rightarrow>
          (case m of None \<Rightarrow> None
           | Some minute \<Rightarrow>
               (let lt = LocalTime rt t;
                    d = MakeDate (Day lt) (MakeTime (HourFromTime lt) minute (SecFromTime lt) (msFromTime lt))
                in TimeClip (UTC rt d))))"

subsection \<open>Exceptions, configuration, clients\<close>

text \<open>
  What can be thrown: the RangeError of \<^verbatim>\<open>toISOString\<close> on an Invalid Date, the TypeError
  of calling a method a value does not have, and the error of a client, with its message.
\<close>

datatype exn = RangeError | TypeError | ClientError string

text \<open>
  An ISO string made by \<^verbatim>\<open>toISOString\<close> is represented by the time value it denotes;
  \<^verbatim>\<open>new Date\<close> of such a string is that time value again.
\<close>

type_synonym iso = int

definition toISOString :: "int option \<Rightarrow> exn + iso" where
  "toISOString tv = (case tv of None \<Rightarrow> Inl RangeError | Some t \<Rightarrow> Inr t)"

text \<open>The variables of \<^verbatim>\<open>process.env\<close> the program reads; \<open>None\<close> is an unset variable.\<close>

record env =
  FIREBASE_SERVICE_ACCOUNT :: "string option"
  GCAL_ID :: "string option"
  TWILIO_WHATSAPP_FROM :: "string option"
  DEFAULT_TZ :: "string option"

text \<open>\<^verbatim>\<open>process.env.X || fallback\<close>: an unset or empty variable is falsy.\<close>

definition env_truthy :: "string option \<Rightarrow> bool" where
  "env_truthy v = (case v of None \<Rightarrow> False | Some s \<Rightarrow> s \<noteq> [])"

definition env_or :: "string option \<Rightarrow> string \<Rightarrow> string" where
  "env_or v fallback = (case v of None \<Rightarrow> fallback | Some s \<Rightarrow> if s \<noteq> [] then s else fallback)"

text \<open>
  \<^verbatim>\<open>const db = admin.apps.length ? admin.firestore() : null\<close>: the app is initialised
  exactly when \<^verbatim>\<open>FIREBASE_SERVICE_ACCOUNT\<close> is set and not empty (a value that is not a
  service account stops the process when it starts, before any request); \<open>db\<close> says
  whether \<^verbatim>\<open>db\<close> is not null.
\<close>

definition db :: "env \<Rightarrow> bool" where
  "db e = env_truthy (FIREBASE_SERVICE_ACCOUNT e)"

definition CALENDAR_ID :: "env \<Rightarrow> string" where
  "CALENDAR_ID e = env_or (GCAL_ID e) ''primary''"

text \<open>The arguments of the clients' calls.\<close>

record list_params =
  calendarId :: string
  timeMin :: iso
  timeMax :: iso
  singleEvents :: bool
  orderBy :: string

record event =
  summary :: string
  description :: string
  start_dateTime :: iso
  end_dateTime :: iso

record message =
  msg_from :: string
  msg_to :: string
  msg_body :: string

text \<open>
  A Firestore document is a list of fields; a field holds a value of the request or the
  sentinel \<^verbatim>\<open>FieldValue.serverTimestamp()\<close>.
\<close>

datatype field = Val jsval | ServerTimestamp

type_synonym document = "(string \<times> field) list"

text \<open>
  The clients: what each call answers. \<open>events_list\<close> gives \<^verbatim>\<open>res.data.items\<close> (\<open>None\<close>
  when the answer has no \<^verbatim>\<open>items\<close>), \<open>events_insert\<close> gives \<^verbatim>\<open>insertRes.data.id\<close>,
  \<open>bookings_add\<close> gives the id of the new document reference, \<open>bookingRef_update\<close> is
  called on that reference.
\<close>

record clients =
  events_list :: "list_params \<Rightarrow> exn + string list option"
  events_insert :: "string \<Rightarrow> event \<Rightarrow> exn + string"
  bookings_add :: "document \<Rightarrow> exn + string"
  bookingRef_update :: "string \<Rightarrow> document \<Rightarrow> exn + unit"
  messages_create :: "message \<Rightarrow> exn + unit"

datatype effect =
    EventsList list_params
  | BookingsAdd document
  | EventsInsert string event
  | BookingRefUpdate string document
  | MessagesCreate message
  | ConsoleError exn

text \<open>
  A computation gives a value or throws, and leaves the trace of the calls it made:
  \<open>ok\<close> returns, \<open>throw\<close> throws, \<open>eval\<close> is an expression that calls no client, \<open>call\<close>
  is one call to a client. \<open>await\<close> is sequencing: a thrown error skips the rest.
\<close>

type_synonym 'a outcome = "(exn + 'a) \<times> effect list"

definition ok :: "'a \<Rightarrow> 'a outcome" where
  "ok x = (Inr x, [])"

definition throw :: "exn \<Rightarrow> 'a outcome" where
  "throw err = (Inl err, [])"

definition eval :: "exn + 'a \<Rightarrow> 'a outcome" where
  "eval r = (r, [])"

definition call :: "effect \<Rightarrow> exn + 'a \<Rightarrow> 'a outcome" where
  "call ef answer = (answer, [ef])"

definition await :: "'a outcome \<Rightarrow> ('a \<Rightarrow> 'b outcome) \<Rightarrow> 'b outcome" where
  "await m k =
     (case m of
        (Inl err, tr) \<Rightarrow> (Inl err, tr)
      | (Inr x, tr) \<Rightarrow> (case k x of (r, tr') \<Rightarrow> (r, tr @ tr')))"

subsection \<open>The helpers\<close>

text \<open>
  \<^verbatim>\<open>function toISO(dateStr, timeStr, tz = process.env.DEFAULT_TZ || 'Europe/Lisbon')\<close>:
  the default is taken when the argument is \<^verbatim>\<open>undefined\<close>; the body does not read \<open>tz\<close>.
\<close>

definition toISO :: "runtime \<Rightarrow> env \<Rightarrow> jsval \<Rightarrow> jsval \<Rightarrow> jsval \<Rightarrow> exn + iso" where
  "toISO rt e dateStr timeStr tzArg =
     (let tz = (case tzArg of JUndefined \<Rightarrow> JStr (env_or (DEFAULT_TZ e) ''Europe/Lisbon'') | v \<Rightarrow> v);
          iso = toISOString (date_parse rt (ToString dateStr @ ''T'' @ ToString timeStr @ '':00''))
      in iso)"

definition list_query :: "env \<Rightarrow> iso \<Rightarrow> iso \<Rightarrow> list_params" where
  "list_query e startISO endISO =
     \<lparr>calendarId = CALENDAR_ID e, timeMin = startISO, timeMax = endISO,
      singleEvents = True, orderBy = ''startTime''\<rparr>"

definition isAvailable :: "env \<Rightarrow> clients \<Rightarrow> iso \<Rightarrow> iso \<Rightarrow> bool outcome" where
  "isAvailable e cl startISO endISO =
     await (call (EventsList (list_query e startISO endISO))
                 (events_list cl (list_query e startISO endISO)))
       (\<lambda>items. ok (length (case items of None \<Rightarrow> [] | Some xs \<Rightarrow> xs) = 0))"

subsection \<open>The handler\<close>

record body =
  service :: jsval
  date :: jsval
  time :: jsval
  duration :: jsval
  name :: jsval
  phone :: jsval
  email :: jsval

datatype json =
    ErrorJson string
  | InternalJson string exn
  | SuccessJson bool string "string option"

record response =
  res_status :: nat
  res_json :: json

text \<open>\<^verbatim>\<open>duration = 60\<close> in the destructuring: the default stands in for \<^verbatim>\<open>undefined\<close> only.\<close>

definition duration_or_default :: "body \<Rightarrow> jsval" where
  "duration_or_default b = (case duration b of JUndefined \<Rightarrow> JNum 60 | v \<Rightarrow> v)"

definition missing_required :: "body \<Rightarrow> bool" where
  "missing_required b =
     (\<not> truthy (service b) \<or> \<not> truthy (date b) \<or> \<not> truthy (time b)
      \<or> \<not> truthy (name b) \<or> \<not> truthy (phone b))"

text \<open>Lines 73 to 75: the end of the window, from the start and the duration.\<close>

definition endISO_of :: "runtime \<Rightarrow> iso \<Rightarrow> jsval \<Rightarrow> exn + iso" where
  "endISO_of rt startISO dur =
     (let endDate = Some startISO;
          endDate' = setMinutes rt endDate (js_plus (getMinutes rt endDate) (Number rt dur))
      in toISOString endDate')"

definition booking_doc :: "body \<Rightarrow> document" where
  "booking_doc b =
     [(''service'', Val (service b)), (''date'', Val (date b)), (''time'', Val (time b)),
      (''duration'', Val (duration_or_default b)), (''name'', Val (name b)),
      (''phone'', Val (phone b)), (''email'', Val (email b)),
      (''status'', Val (JStr ''pending'')), (''createdAt'', ServerTimestamp)]"

definition confirmed_doc :: "string \<Rightarrow> document" where
  "confirmed_doc eventId =
     [(''status'', Val (JStr ''confirmed'')), (''calendarEventId'', Val (JStr eventId))]"

text \<open>The dash of the summary is U+2014 and the c of the last label is U+00E7, in UTF-8.\<close>

definition calendar_event :: "body \<Rightarrow> iso \<Rightarrow> iso \<Rightarrow> event" where
  "calendar_event b startISO endISO =
     \<lparr>summary = ''AZ Clean '' @ [char_of (226::nat), char_of (128::nat), char_of (148::nat)] @ '' ''
                 @ ToString (service b) @ '' - '' @ ToString (name b),
      description = ''Cliente: '' @ ToString (name b) @ [char_of (10::nat)]
                 @ ''Telefone: '' @ ToString (phone b) @ [char_of (10::nat)]
                 @ ''Email: '' @ (if truthy (email b) then ToString (email b) else ''-'') @ [char_of (10::nat)]
                 @ ''Servi'' @ [char_of (195::nat), char_of (167::nat)] @ ''o: '' @ ToString (service b),
      start_dateTime = startISO,
      end_dateTime = endISO\<rparr>"

text \<open>The accented letters of the message are U+00E1, U+00E7 U+00E3 and U+00E0, in UTF-8.\<close>

definition bodyMsg :: "body \<Rightarrow> string" where
  "bodyMsg b =
     ''AZ Clean: Ol'' @ [char_of (195::nat), char_of (161::nat)] @ '' '' @ ToString (name b)
       @ ''! Sua marca'' @ [char_of (195::nat), char_of (167::nat), char_of (195::nat), char_of (163::nat)]
       @ ''o para '' @ ToString (service b) @ '' foi confirmada em '' @ ToString (date b)
       @ '' '' @ [char_of (195::nat), char_of (160::nat)] @ ''s '' @ ToString (time b) @ ''. Obrigado!''"

text \<open>
  Step 4 of the handler, the WhatsApp confirmation. \<^verbatim>\<open>phone.startsWith\<close> is a function
  only when \<open>phone\<close> is a string; on a number or a boolean the call throws a TypeError,
  before the client is called.
\<close>

definition notify :: "env \<Rightarrow> clients \<Rightarrow> body \<Rightarrow> unit outcome" where
  "notify e cl b =
     (case TWILIO_WHATSAPP_FROM e of
        None \<Rightarrow> ok ()
      | Some sender \<Rightarrow>
          if sender = [] then ok ()
          else
            (case phone b of
               JStr p \<Rightarrow>
                 (let msg = \<lparr>msg_from = sender,
                             msg_to = ''whatsapp:'' @ (if startsWith p ''+'' then p else ''+'' @ p),
                             msg_body = bodyMsg b\<rparr>
                  in call (MessagesCreate msg) (messages_create cl msg))
             | _ \<Rightarrow> throw TypeError))"

text \<open>The body of the \<^verbatim>\<open>try\<close> block.\<close>

definition book_try :: "env \<Rightarrow> runtime \<Rightarrow> clients \<Rightarrow> body \<Rightarrow> response outcome" where
  "book_try e rt cl b =
     (if missing_required b then
        ok \<lparr>res_status = 400, res_json = ErrorJson ''Missing required fields''\<rparr>
      else
        await (eval (toISO rt e (date b) (time b) JUndefined)) (\<lambda>startISO.
        await (eval (endISO_of rt startISO (duration_or_default b))) (\<lambda>endISO.
        await (isAvailable e cl startISO endISO) (\<lambda>available.
          if \<not> available then
            ok \<lparr>res_status = 409, res_json = ErrorJson ''Slot not available''\<rparr>
          else
            await (if db e
                   then await (call (BookingsAdd (booking_doc b)) (bookings_add cl (booking_doc b)))
                          (\<lambda>ref. ok (Some ref))
                   else ok None) (\<lambda>bookingRef.
            await (call (EventsInsert (CALENDAR_ID e) (calendar_event b startISO endISO))
                        (events_insert cl (CALENDAR_ID e) (calendar_event b startISO endISO)))
              (\<lambda>eventId.
            await (case bookingRef of
                     Some ref \<Rightarrow>
                       if db e
                       then call (BookingRefUpdate ref (confirmed_doc eventId))
                                 (bookingRef_update cl ref (confirmed_doc eventId))
                       else ok ()
                   | None \<Rightarrow> ok ()) (\<lambda>_.
            await (notify e cl b) (\<lambda>_.
              ok \<lparr>res_status = 200, res_json = SuccessJson True eventId bookingRef\<rparr>))))))))"

text \<open>
  The handler: the response sent and the trace. The \<^verbatim>\<open>catch\<close> logs the error and
  answers 500 with the error's message as details (the model keeps the error itself).
\<close>

definition book :: "env \<Rightarrow> runtime \<Rightarrow> clients \<Rightarrow> body \<Rightarrow> response \<times> effect list" where
  "book e rt cl b =
     (case book_try e rt cl b of
        (Inr res, tr) \<Rightarrow> (res, tr)
      | (Inl err, tr) \<Rightarrow>
          (\<lparr>res_status = 500, res_json = InternalJson ''Erro interno'' err\<rparr>, tr @ [ConsoleError err]))"

subsection \<open>Sample configurations\<close>

text \<open>
  A runtime whose local zone is Europe/Lisbon in the first half of 2025: UTC+0 until
  2025-03-30T01:00:00Z, UTC+1 from then on (local 02:00). The Date parser is given at the
  two strings the examples use, read as local time.
\<close>

definition lisbon :: runtime where
  "lisbon =
     \<lparr>date_parse = (\<lambda>s. if s = ''2025-06-01T10:00:00'' then Some 1748768400000
                         else if s = ''2025-03-30T00:30:00'' then Some 1743294600000
                         else None),
      local_tza = (\<lambda>t isUTC. if isUTC then (if 1743296400000 \<le> t then 3600000 else 0)
                                else (if 1743300000000 \<le> t then 3600000 else 0)),
      string_to_number = (\<lambda>s. if s = ''90'' then Some 90 else None)\<rparr>"

definition env_full :: env where
  "env_full =
     \<lparr>FIREBASE_SERVICE_ACCOUNT = Some ''{}'', GCAL_ID = None,
      TWILIO_WHATSAPP_FROM = Some ''whatsapp:+14155238886'', DEFAULT_TZ = None\<rparr>"

definition env_no_db :: env where
  "env_no_db =
     \<lparr>FIREBASE_SERVICE_ACCOUNT = None, GCAL_ID = None,
      TWILIO_WHATSAPP_FROM = Some ''whatsapp:+14155238886'', DEFAULT_TZ = None\<rparr>"

text \<open>Clients that answer every call, with a free calendar.\<close>

definition clients_ok :: clients where
  "clients_ok =
     \<lparr>events_list = (\<lambda>q. Inr (Some [])),
      events_insert = (\<lambda>c ev. Inr ''evt1''),
      bookings_add = (\<lambda>d. Inr ''bk1''),
      bookingRef_update = (\<lambda>r d. Inr ()),
      messages_create = (\<lambda>m. Inr ())\<rparr>"

text \<open>The end-to-end example of the specification, with an email address.\<close>

definition ana :: body where
  "ana =
     \<lparr>service = JStr ''Limpeza'', date = JStr ''2025-06-01'', time = JStr ''10:00'',
      duration = JNum 60, name = JStr ''Ana'', phone = JStr ''351911111111'',
      email = JStr ''ana@example.com''\<rparr>"

text \<open>A calendar that already has an event in every window asked for.\<close>

definition clients_busy :: clients where
  "clients_busy = clients_ok\<lparr>events_list := (\<lambda>q. Inr (Some [''evt0'']))\<rparr>"

text \<open>Clients of which one call fails: the calendar query, the calendar insert, the message.\<close>

definition clients_list_down :: clients where
  "clients_list_down = clients_ok\<lparr>events_list := (\<lambda>q. Inl (ClientError ''Forbidden''))\<rparr>"

definition clients_insert_down :: clients where
  "clients_insert_down = clients_ok\<lparr>events_insert := (\<lambda>c ev. Inl (ClientError ''Backend Error''))\<rparr>"

definition clients_sms_down :: clients where
  "clients_sms_down = clients_ok\<lparr>messages_create := (\<lambda>m. Inl (ClientError ''Unreachable''))\<rparr>"


section \<open>Properties\<close>

subsection \<open>Auxiliary facts\<close>

lemmas flow = book_def book_try_def ok_def throw_def eval_def call_def await_def

lemma isAvailable_trace: "snd (isAvailable e cl s en) = [EventsList (list_query e s en)]"
  by (simp add: isAvailable_def await_def call_def ok_def split: sum.splits)

lemma isAvailable_pair:
  "fst (isAvailable e cl s en) = r \<Longrightarrow>
   isAvailable e cl s en = (r, [EventsList (list_query e s en)])"
  using isAvailable_trace [of e cl s en] by (cases "isAvailable e cl s en") simp

text \<open>The only call of step 4 is the message, with the destination built from the phone.\<close>

lemma notify_effects:
  assumes "ef \<in> set (snd (notify e cl b))"
  shows "\<exists>sender p. TWILIO_WHATSAPP_FROM e = Some sender \<and> phone b = JStr p \<and>
           ef = MessagesCreate \<lparr>msg_from = sender,
                  msg_to = ''whatsapp:'' @ (if startsWith p ''+'' then p else ''+'' @ p),
                  msg_body = bodyMsg b\<rparr>"
  using assms
  by (auto simp: notify_def ok_def throw_def call_def Let_def
           split: option.splits if_splits jsval.splits)

text \<open>Every call the handler makes, by the stage that makes it.\<close>

lemma book_try_effects:
  assumes "ef \<in> set (snd (book_try e rt cl b))"
  shows "\<exists>s en. toISO rt e (date b) (time b) JUndefined = Inr s
           \<and> endISO_of rt s (duration_or_default b) = Inr en
           \<and> (ef = EventsList (list_query e s en)
              \<or> (db e \<and> ef = BookingsAdd (booking_doc b))
              \<or> ef = EventsInsert (CALENDAR_ID e) (calendar_event b s en)
              \<or> (db e \<and> (\<exists>ref eventId. ef = BookingRefUpdate ref (confirmed_doc eventId)))
              \<or> ef \<in> set (snd (notify e cl b)))"
proof (cases "missing_required b")
  case True
  with assms show ?thesis by (simp add: book_try_def ok_def)
next
  case False
  show ?thesis
  proof (cases "toISO rt e (date b) (time b) JUndefined")
    case (Inl err)
    with False assms show ?thesis by (simp add: book_try_def eval_def await_def)
  next
    case s: (Inr s)
    show ?thesis
    proof (cases "endISO_of rt s (duration_or_default b)")
      case (Inl err)
      with False s assms show ?thesis by (simp add: book_try_def eval_def await_def)
    next
      case en: (Inr en)
      obtain r where av: "isAvailable e cl s en = (r, [EventsList (list_query e s en)])"
        using isAvailable_pair by blast
      from False s en av assms show ?thesis
        by (auto simp: book_try_def eval_def await_def ok_def call_def
                 split: sum.splits if_splits option.splits prod.splits)
    qed
  qed
qed

lemma book_effects:
  assumes "ef \<in> set (snd (book e rt cl b))"
  shows "(\<exists>err. ef = ConsoleError err) \<or> ef \<in> set (snd (book_try e rt cl b))"
  using assms by (auto simp: book_def split: prod.splits sum.splits)

text \<open>A time value is its day, hour, minute, second and millisecond put together again.\<close>

lemma time_decompose:
  "Day t * msPerDay + HourFromTime t * msPerHour + MinFromTime t * msPerMinute
     + SecFromTime t * msPerSecond + msFromTime t = t"
proof -
  have h: "t mod 86400000 = 3600000 * (t div 3600000 mod 24) + t mod 3600000"
    using zmod_zmult2_eq [of 24 t 3600000] by simp
  have m: "t mod 3600000 = 60000 * (t div 60000 mod 60) + t mod 60000"
    using zmod_zmult2_eq [of 60 t 60000] by simp
  have s: "t mod 60000 = 1000 * (t div 1000 mod 60) + t mod 1000"
    using zmod_zmult2_eq [of 60 t 1000] by simp
  have "t div 86400000 * 86400000 + t mod 86400000 = t"
    by (rule div_mult_mod_eq)
  then have "t div 86400000 * 86400000
      + (3600000 * (t div 3600000 mod 24)
         + (60000 * (t div 60000 mod 60) + (1000 * (t div 1000 mod 60) + t mod 1000))) = t"
    by (simp only: h m s)
  then show ?thesis
    unfolding Day_def HourFromTime_def MinFromTime_def SecFromTime_def msFromTime_def
      msPerDay_def msPerHour_def msPerMinute_def msPerSecond_def
    by (simp only: mult.commute add.assoc)
qed

lemma setMinutes_local:
  "MakeDate (Day t) (MakeTime (HourFromTime t) (MinFromTime t + d) (SecFromTime t) (msFromTime t))
     = t + d * msPerMinute"
proof -
  have "MakeDate (Day t) (MakeTime (HourFromTime t) (MinFromTime t + d) (SecFromTime t) (msFromTime t))
      = (Day t * msPerDay + HourFromTime t * msPerHour + MinFromTime t * msPerMinute
          + SecFromTime t * msPerSecond + msFromTime t) + d * msPerMinute"
    by (simp add: MakeDate_def MakeTime_def algebra_simps)
  then show ?thesis
    by (simp only: time_decompose)
qed

lemma endISO_of_Some:
  assumes "Number rt dur = Some d"
  shows "endISO_of rt s dur = toISOString (TimeClip (UTC rt (LocalTime rt s + d * msPerMinute)))"
  using assms
  by (simp add: endISO_of_def setMinutes_def getMinutes_def js_plus_def setMinutes_local Let_def)


text \<open>The runs of the handler once the window is known and the calendar is free.\<close>

lemma run_with_db:
  assumes "\<not> missing_required b" and "db e"
    and "toISO rt e (date b) (time b) JUndefined = Inr s"
    and "endISO_of rt s (duration_or_default b) = Inr en"
    and "fst (isAvailable e cl s en) = Inr True"
    and "bookings_add cl (booking_doc b) = Inr ref"
    and "events_insert cl (CALENDAR_ID e) (calendar_event b s en) = Inr eventId"
    and "bookingRef_update cl ref (confirmed_doc eventId) = Inr ()"
  shows "book e rt cl b =
     (case fst (notify e cl b) of
        Inr u \<Rightarrow>
          (\<lparr>res_status = 200, res_json = SuccessJson True eventId (Some ref)\<rparr>,
           [EventsList (list_query e s en), BookingsAdd (booking_doc b),
            EventsInsert (CALENDAR_ID e) (calendar_event b s en),
            BookingRefUpdate ref (confirmed_doc eventId)] @ snd (notify e cl b))
      | Inl err \<Rightarrow>
          (\<lparr>res_status = 500, res_json = InternalJson ''Erro interno'' err\<rparr>,
           [EventsList (list_query e s en), BookingsAdd (booking_doc b),
            EventsInsert (CALENDAR_ID e) (calendar_event b s en),
            BookingRefUpdate ref (confirmed_doc eventId)] @ snd (notify e cl b) @ [ConsoleError err]))"
proof -
  obtain r tr where n: "notify e cl b = (r, tr)"
    by (cases "notify e cl b")
  from assms(1-4,6-8) isAvailable_pair [OF assms(5)] n show ?thesis
    by (cases r) (simp_all add: flow)
qed

lemma run_without_db:
  assumes "\<not> missing_required b" and "\<not> db e"
    and "toISO rt e (date b) (time b) JUndefined = Inr s"
    and "endISO_of rt s (duration_or_default b) = Inr en"
    and "fst (isAvailable e cl s en) = Inr True"
    and "events_insert cl (CALENDAR_ID e) (calendar_event b s en) = Inr eventId"
  shows "book e rt cl b =
     (case fst (notify e cl b) of
        Inr u \<Rightarrow>
          (\<lparr>res_status = 200, res_json = SuccessJson True eventId None\<rparr>,
           [EventsList (list_query e s en),
            EventsInsert (CALENDAR_ID e) (calendar_event b s en)] @ snd (notify e cl b))
      | Inl err \<Rightarrow>
          (\<lparr>res_status = 500, res_json = InternalJson ''Erro interno'' err\<rparr>,
           [EventsList (list_query e s en),
            EventsInsert (CALENDAR_ID e) (calendar_event b s en)] @ snd (notify e cl b) @ [ConsoleError err]))"
proof -
  obtain r tr where n: "notify e cl b = (r, tr)"
    by (cases "notify e cl b")
  from assms(1-4,6) isAvailable_pair [OF assms(5)] n show ?thesis
    by (cases r) (simp_all add: flow)
qed

lemma insert_fails_with_db:
  assumes "\<not> missing_required b" and "db e"
    and "toISO rt e (date b) (time b) JUndefined = Inr s"
    and "endISO_of rt s (duration_or_default b) = Inr en"
    and "fst (isAvailable e cl s en) = Inr True"
    and "bookings_add cl (booking_doc b) = Inr ref"
    and "events_insert cl (CALENDAR_ID e) (calendar_event b s en) = Inl err"
  shows "book e rt cl b =
     (\<lparr>res_status = 500, res_json = InternalJson ''Erro interno'' err\<rparr>,
      [EventsList (list_query e s en), BookingsAdd (booking_doc b),
       EventsInsert (CALENDAR_ID e) (calendar_event b s en), ConsoleError err])"
  using assms(1-4,6,7) isAvailable_pair [OF assms(5)]
  by (simp add: flow)

lemma insert_fails_without_db:
  assumes "\<not> missing_required b" and "\<not> db e"
    and "toISO rt e (date b) (time b) JUndefined = Inr s"
    and "endISO_of rt s (duration_or_default b) = Inr en"
    and "fst (isAvailable e cl s en) = Inr True"
    and "events_insert cl (CALENDAR_ID e) (calendar_event b s en) = Inl err"
  shows "book e rt cl b =
     (\<lparr>res_status = 500, res_json = InternalJson ''Erro interno'' err\<rparr>,
      [EventsList (list_query e s en),
       EventsInsert (CALENDAR_ID e) (calendar_event b s en), ConsoleError err])"
  using assms(1-4,6) isAvailable_pair [OF assms(5)]
  by (simp add: flow)

text \<open>The availability check, by the answer of the calendar.\<close>

lemma isAvailable_fst:
  "fst (isAvailable e cl s en) =
     (case events_list cl (list_query e s en) of
        Inl err \<Rightarrow> Inl err
      | Inr items \<Rightarrow> Inr ((case items of None \<Rightarrow> [] | Some xs \<Rightarrow> xs) = []))"
  by (simp add: isAvailable_def await_def call_def ok_def split: sum.splits)

text \<open>The sample request, stage by stage.\<close>

lemma ana_present: "\<not> missing_required ana"
  by (simp add: missing_required_def ana_def)

lemma ana_start: "toISO lisbon e (date ana) (time ana) JUndefined = Inr 1748768400000"
  by (simp add: toISO_def toISOString_def lisbon_def ana_def)

lemma ana_number: "Number lisbon (duration_or_default ana) = Some 60"
  by (simp add: duration_or_default_def ana_def)

lemma ana_end: "endISO_of lisbon 1748768400000 (duration_or_default ana) = Inr 1748772000000"
  using ana_number
  by (simp add: endISO_of_Some LocalTime_def UTC_def TimeClip_def toISOString_def
      msPerMinute_def lisbon_def)

lemma ana_phone: "phone ana = JStr ''351911111111''"
  by (simp add: ana_def)

lemma ana_notify:
  "notify env_full cl ana =
     (messages_create cl \<lparr>msg_from = ''whatsapp:+14155238886'', msg_to = ''whatsapp:+351911111111'',
                           msg_body = bodyMsg ana\<rparr>,
      [MessagesCreate \<lparr>msg_from = ''whatsapp:+14155238886'', msg_to = ''whatsapp:+351911111111'',
                           msg_body = bodyMsg ana\<rparr>])"
  by (simp add: notify_def ana_phone env_full_def call_def startsWith_def Let_def)

lemma ana_notify_no_db:
  "notify env_no_db cl ana =
     (messages_create cl \<lparr>msg_from = ''whatsapp:+14155238886'', msg_to = ''whatsapp:+351911111111'',
                           msg_body = bodyMsg ana\<rparr>,
      [MessagesCreate \<lparr>msg_from = ''whatsapp:+14155238886'', msg_to = ''whatsapp:+351911111111'',
                           msg_body = bodyMsg ana\<rparr>])"
  by (simp add: notify_def ana_phone env_no_db_def call_def startsWith_def Let_def)

lemma env_full_db: "db env_full"
  by (simp add: db_def env_truthy_def env_full_def)

lemma env_no_db_db: "\<not> db env_no_db"
  by (simp add: db_def env_truthy_def env_no_db_def)

lemma env_full_calendar: "CALENDAR_ID env_full = ''primary''"
  by (simp add: CALENDAR_ID_def env_or_def env_full_def)

lemma env_no_db_calendar: "CALENDAR_ID env_no_db = ''primary''"
  by (simp add: CALENDAR_ID_def env_or_def env_no_db_def)






lemma notify_call:
  assumes "TWILIO_WHATSAPP_FROM e = Some sender" and "sender \<noteq> []" and "phone b = JStr p"
  shows "notify e cl b =
     (messages_create cl \<lparr>msg_from = sender,
          msg_to = ''whatsapp:'' @ (if startsWith p ''+'' then p else ''+'' @ p),
          msg_body = bodyMsg b\<rparr>,
      [MessagesCreate \<lparr>msg_from = sender,
          msg_to = ''whatsapp:'' @ (if startsWith p ''+'' then p else ''+'' @ p),
          msg_body = bodyMsg b\<rparr>])"
  using assms by (simp add: notify_def call_def Let_def)

lemma sample_message_sent:
  assumes "phone b = JStr p" and "p \<noteq> []"
    and "date b = date ana" and "time b = time ana" and "duration b = duration ana"
    and "truthy (service b)" and "truthy (name b)"
  shows "MessagesCreate \<lparr>msg_from = ''whatsapp:+14155238886'',
            msg_to = ''whatsapp:'' @ (if startsWith p ''+'' then p else ''+'' @ p),
            msg_body = bodyMsg b\<rparr>
           \<in> set (snd (book env_full lisbon clients_ok b))"
proof -
  have pr: "\<not> missing_required b"
    using assms ana_present by (simp add: missing_required_def)
  have st: "toISO lisbon env_full (date b) (time b) JUndefined = Inr 1748768400000"
    using assms ana_start by simp
  have en: "endISO_of lisbon 1748768400000 (duration_or_default b) = Inr 1748772000000"
    using assms ana_end by (simp add: duration_or_default_def)
  have av: "fst (isAvailable env_full clients_ok 1748768400000 1748772000000) = Inr True"
    by (simp add: isAvailable_fst clients_ok_def)
  have n: "notify env_full clients_ok b =
     (Inr (), [MessagesCreate \<lparr>msg_from = ''whatsapp:+14155238886'',
            msg_to = ''whatsapp:'' @ (if startsWith p ''+'' then p else ''+'' @ p),
            msg_body = bodyMsg b\<rparr>])"
    using notify_call [of env_full "''whatsapp:+14155238886''" b p clients_ok] assms(1)
    by (simp add: env_full_def clients_ok_def)
  have add: "bookings_add clients_ok (booking_doc b) = Inr ''bk1''"
    by (simp add: clients_ok_def)
  have ins: "events_insert clients_ok (CALENDAR_ID env_full)
               (calendar_event b 1748768400000 1748772000000) = Inr ''evt1''"
    by (simp add: clients_ok_def)
  have upd: "bookingRef_update clients_ok ''bk1'' (confirmed_doc ''evt1'') = Inr ()"
    by (simp add: clients_ok_def)
  from run_with_db [OF pr env_full_db st en av add ins upd] show ?thesis
    by (simp add: n)
qed

text \<open>Without a datastore no datastore call is made, whatever else happens.\<close>

lemma no_datastore_without_db:
  assumes "\<not> db e" and "ef \<in> set (snd (book e rt cl b))"
  shows "ef \<noteq> BookingsAdd d \<and> ef \<noteq> BookingRefUpdate r d"
proof -
  from book_effects [OF assms(2)] show ?thesis
  proof
    assume "\<exists>err. ef = ConsoleError err"
    then show ?thesis by auto
  next
    assume "ef \<in> set (snd (book_try e rt cl b))"
    from book_try_effects [OF this] assms(1) show ?thesis
      by (auto dest: notify_effects simp: list_query_def)
  qed
qed

text \<open>A request with a falsy required field is answered 400 before anything is called.\<close>

lemma missing_required_400:
  assumes "missing_required b"
  shows "book e rt cl b =
           (\<lparr>res_status = 400, res_json = ErrorJson ''Missing required fields''\<rparr>, [])"
  using assms by (simp add: book_def book_try_def ok_def)

text \<open>A request past the check is answered 409 or 200 when nothing throws.\<close>

lemma status_of_try:
  assumes "\<not> missing_required b" and "book_try e rt cl b = (Inr res, tr)"
  shows "res_status res = 409 \<or> res_status res = 200"
proof (cases "toISO rt e (date b) (time b) JUndefined")
  case (Inl err)
  with assms show ?thesis by (simp add: book_try_def eval_def await_def)
next
  case s: (Inr s)
  show ?thesis
  proof (cases "endISO_of rt s (duration_or_default b)")
    case (Inl err)
    with assms s show ?thesis by (simp add: book_try_def eval_def await_def)
  next
    case en: (Inr en)
    obtain r where av: "isAvailable e cl s en = (r, [EventsList (list_query e s en)])"
      using isAvailable_pair by blast
    obtain n ntr where n: "notify e cl b = (n, ntr)"
      by (cases "notify e cl b")
    from assms s en av n show ?thesis
      by (auto simp: book_try_def eval_def await_def ok_def call_def
               split: sum.splits if_splits option.splits prod.splits)
  qed
qed

subsection \<open>Validation\<close>

text \<open>
  C2. A request that lacks one of service, date, time, name, phone is answered 400 with
  the message \<^verbatim>\<open>Missing required fields\<close>, and the handler calls no client: no calendar
  query, no calendar insert, no datastore write, no message (the trace is empty).
\<close>

theorem missing_field_400:
  assumes "service b = JUndefined \<or> date b = JUndefined \<or> time b = JUndefined
           \<or> name b = JUndefined \<or> phone b = JUndefined"
  shows "book e rt cl b =
           (\<lparr>res_status = 400, res_json = ErrorJson ''Missing required fields''\<rparr>, [])"
proof -
  from assms have "missing_required b"
    by (auto simp: missing_required_def)
  then show ?thesis
    by (simp add: book_def book_try_def ok_def)
qed

text \<open>
  The sample request without its phone.
\<close>

theorem missing_field_400_witness:
  "book env_full lisbon clients_ok (ana\<lparr>phone := JUndefined\<rparr>) =
     (\<lparr>res_status = 400, res_json = ErrorJson ''Missing required fields''\<rparr>, [])"
  using missing_field_400 [of "ana\<lparr>phone := JUndefined\<rparr>" env_full lisbon clients_ok]
  by simp

text \<open>
  C10. A request in which one of service, date, time, name, phone is the empty string is
  answered 400 with the message of a missing field and no call to any client, which is
  the answer to the same request without that field. The check is \<^verbatim>\<open>!field\<close>, and the
  empty string is falsy.
\<close>

theorem empty_field_400:
  assumes "service b = JStr [] \<or> date b = JStr [] \<or> time b = JStr []
           \<or> name b = JStr [] \<or> phone b = JStr []"
  shows "book e rt cl b =
           (\<lparr>res_status = 400, res_json = ErrorJson ''Missing required fields''\<rparr>, [])
       \<and> (service b = JStr [] \<longrightarrow> book e rt cl b = book e rt cl (b\<lparr>service := JUndefined\<rparr>))
       \<and> (date b = JStr [] \<longrightarrow> book e rt cl b = book e rt cl (b\<lparr>date := JUndefined\<rparr>))
       \<and> (time b = JStr [] \<longrightarrow> book e rt cl b = book e rt cl (b\<lparr>time := JUndefined\<rparr>))
       \<and> (name b = JStr [] \<longrightarrow> book e rt cl b = book e rt cl (b\<lparr>name := JUndefined\<rparr>))
       \<and> (phone b = JStr [] \<longrightarrow> book e rt cl b = book e rt cl (b\<lparr>phone := JUndefined\<rparr>))"
proof -
  from assms have "missing_required b"
    by (auto simp: missing_required_def)
  moreover have "missing_required (b\<lparr>service := JUndefined\<rparr>)"
    "missing_required (b\<lparr>date := JUndefined\<rparr>)"
    "missing_required (b\<lparr>time := JUndefined\<rparr>)"
    "missing_required (b\<lparr>name := JUndefined\<rparr>)"
    "missing_required (b\<lparr>phone := JUndefined\<rparr>)"
    by (simp_all add: missing_required_def)
  ultimately show ?thesis
    by (simp add: missing_required_400)
qed

text \<open>
  The sample request with an empty name gets the answer of the sample request with no
  name.
\<close>

theorem empty_field_400_witness:
  "book env_full lisbon clients_ok (ana\<lparr>name := JStr ''''\<rparr>) =
     (\<lparr>res_status = 400, res_json = ErrorJson ''Missing required fields''\<rparr>, [])
   \<and> book env_full lisbon clients_ok (ana\<lparr>name := JStr ''''\<rparr>) =
       book env_full lisbon clients_ok (ana\<lparr>name := JUndefined\<rparr>)"
proof -
  have "name (ana\<lparr>name := JStr ''''\<rparr>) = JStr ''''"
    by simp
  with empty_field_400 [of "ana\<lparr>name := JStr ''''\<rparr>" env_full lisbon clients_ok]
  have "book env_full lisbon clients_ok (ana\<lparr>name := JStr ''''\<rparr>) =
     (\<lparr>res_status = 400, res_json = ErrorJson ''Missing required fields''\<rparr>, [])"
    and "book env_full lisbon clients_ok (ana\<lparr>name := JStr ''''\<rparr>) =
       book env_full lisbon clients_ok ((ana\<lparr>name := JStr ''''\<rparr>)\<lparr>name := JUndefined\<rparr>)"
    by blast+
  then show ?thesis
    by simp
qed

subsection \<open>Availability\<close>

text \<open>
  C5. \<^verbatim>\<open>isAvailable(startISO, endISO)\<close> makes one call, the calendar's list query with
  \<^verbatim>\<open>timeMin = startISO\<close> and \<^verbatim>\<open>timeMax = endISO\<close> on the configured calendar. It returns
  true exactly when the query answers with no events (an empty \<^verbatim>\<open>items\<close> or none at all),
  false exactly when the answer holds an event, and it throws exactly the error the query
  throws.
\<close>

theorem isAvailable_iff_no_events:
  "snd (isAvailable e cl s en) = [EventsList (list_query e s en)]
   \<and> calendarId (list_query e s en) = CALENDAR_ID e
   \<and> timeMin (list_query e s en) = s \<and> timeMax (list_query e s en) = en
   \<and> (fst (isAvailable e cl s en) = Inr True) =
       (events_list cl (list_query e s en) = Inr None
        \<or> events_list cl (list_query e s en) = Inr (Some []))
   \<and> (fst (isAvailable e cl s en) = Inr False) =
       (\<exists>x xs. events_list cl (list_query e s en) = Inr (Some (x # xs)))
   \<and> (fst (isAvailable e cl s en) = Inl err) =
       (events_list cl (list_query e s en) = Inl err)"
proof -
  have q: "calendarId (list_query e s en) = CALENDAR_ID e
      \<and> timeMin (list_query e s en) = s \<and> timeMax (list_query e s en) = en"
    by (simp add: list_query_def)
  have t: "(fst (isAvailable e cl s en) = Inr True) =
       (events_list cl (list_query e s en) = Inr None
        \<or> events_list cl (list_query e s en) = Inr (Some []))"
    by (auto simp: isAvailable_fst split: sum.splits option.splits)
  have f: "(fst (isAvailable e cl s en) = Inr False) =
       (\<exists>x xs. events_list cl (list_query e s en) = Inr (Some (x # xs)))"
    by (auto simp: isAvailable_fst neq_Nil_conv split: sum.splits option.splits)
  have x: "(fst (isAvailable e cl s en) = Inl err) =
       (events_list cl (list_query e s en) = Inl err)"
    by (auto simp: isAvailable_fst split: sum.splits)
  from q t f x show ?thesis
    by (simp only: isAvailable_trace simp_thms)
qed

text \<open>
  A free calendar, a busy calendar, and a calendar whose query fails.
\<close>

theorem isAvailable_iff_no_events_witness:
  "fst (isAvailable env_full clients_ok 1748768400000 1748772000000) = Inr True
   \<and> fst (isAvailable env_full clients_busy 1748768400000 1748772000000) = Inr False
   \<and> fst (isAvailable env_full clients_list_down 1748768400000 1748772000000)
       = Inl (ClientError ''Forbidden'')"
  using isAvailable_iff_no_events [of env_full clients_ok 1748768400000 1748772000000]
    isAvailable_iff_no_events [of env_full clients_busy 1748768400000 1748772000000]
    isAvailable_iff_no_events [of env_full clients_list_down 1748768400000 1748772000000
      "ClientError ''Forbidden''"]
  by (simp add: clients_ok_def clients_busy_def clients_list_down_def)

text \<open>
  C3. When the availability check of the request's window returns false, the handler
  answers 409 with \<^verbatim>\<open>Slot not available\<close>, and the calendar query is the only call it
  makes: no datastore write, no calendar insert, no message.
\<close>

theorem conflict_409:
  assumes "\<not> missing_required b"
    and "toISO rt e (date b) (time b) JUndefined = Inr s"
    and "endISO_of rt s (duration_or_default b) = Inr en"
    and "fst (isAvailable e cl s en) = Inr False"
  shows "book e rt cl b =
           (\<lparr>res_status = 409, res_json = ErrorJson ''Slot not available''\<rparr>,
            [EventsList (list_query e s en)])"
  using assms(1-3) isAvailable_pair [OF assms(4)]
  by (simp add: flow)

text \<open>
  The sample request against the busy calendar.
\<close>

theorem conflict_409_witness:
  "fst (isAvailable env_full clients_busy 1748768400000 1748772000000) = Inr False
   \<and> book env_full lisbon clients_busy ana =
       (\<lparr>res_status = 409, res_json = ErrorJson ''Slot not available''\<rparr>,
        [EventsList (list_query env_full 1748768400000 1748772000000)])"
proof -
  have busy: "fst (isAvailable env_full clients_busy 1748768400000 1748772000000) = Inr False"
    by (simp add: isAvailable_fst clients_busy_def clients_ok_def)
  from conflict_409 [OF ana_present ana_start ana_end busy] busy
  show ?thesis by simp
qed

subsection \<open>The booking\<close>

text \<open>
  C1, as amended. Take a request with all required fields whose window is computed, with
  a free calendar and the datastore configured, and suppose the datastore create, the
  calendar insert, the datastore update and the notification step all succeed. Then the
  handler creates a record with status \<^verbatim>\<open>pending\<close>, then inserts the calendar event, then
  updates that same record to \<^verbatim>\<open>confirmed\<close> with the event's id, then runs the
  notification step, and answers 200 with \<^verbatim>\<open>success: true\<close>, the event's id and the
  record's id.
\<close>

theorem confirmed_booking:
  assumes "\<not> missing_required b" and "db e"
    and "toISO rt e (date b) (time b) JUndefined = Inr s"
    and "endISO_of rt s (duration_or_default b) = Inr en"
    and "fst (isAvailable e cl s en) = Inr True"
    and "bookings_add cl (booking_doc b) = Inr ref"
    and "events_insert cl (CALENDAR_ID e) (calendar_event b s en) = Inr eventId"
    and "bookingRef_update cl ref (confirmed_doc eventId) = Inr ()"
    and "fst (notify e cl b) = Inr ()"
  shows "book e rt cl b =
           (\<lparr>res_status = 200, res_json = SuccessJson True eventId (Some ref)\<rparr>,
            [EventsList (list_query e s en),
             BookingsAdd (booking_doc b),
             EventsInsert (CALENDAR_ID e) (calendar_event b s en),
             BookingRefUpdate ref (confirmed_doc eventId)] @ snd (notify e cl b))
         \<and> map_of (booking_doc b) ''status'' = Some (Val (JStr ''pending''))
         \<and> confirmed_doc eventId =
             [(''status'', Val (JStr ''confirmed'')), (''calendarEventId'', Val (JStr eventId))]"
  using run_with_db [OF assms(1-8)] assms(9)
  by (simp add: booking_doc_def confirmed_doc_def)

text \<open>
  The sample request with clients that answer every call.
\<close>

theorem confirmed_booking_witness:
  "book env_full lisbon clients_ok ana =
     (\<lparr>res_status = 200, res_json = SuccessJson True ''evt1'' (Some ''bk1'')\<rparr>,
      [EventsList (list_query env_full 1748768400000 1748772000000),
       BookingsAdd (booking_doc ana),
       EventsInsert ''primary'' (calendar_event ana 1748768400000 1748772000000),
       BookingRefUpdate ''bk1'' (confirmed_doc ''evt1''),
       MessagesCreate \<lparr>msg_from = ''whatsapp:+14155238886'', msg_to = ''whatsapp:+351911111111'',
                        msg_body = bodyMsg ana\<rparr>])
   \<and> map_of (booking_doc ana) ''status'' = Some (Val (JStr ''pending''))"
proof -
  have av: "fst (isAvailable env_full clients_ok 1748768400000 1748772000000) = Inr True"
    by (simp add: isAvailable_fst clients_ok_def)
  have add: "bookings_add clients_ok (booking_doc ana) = Inr ''bk1''"
    by (simp add: clients_ok_def)
  have ins: "events_insert clients_ok (CALENDAR_ID env_full)
               (calendar_event ana 1748768400000 1748772000000) = Inr ''evt1''"
    by (simp add: clients_ok_def)
  have upd: "bookingRef_update clients_ok ''bk1'' (confirmed_doc ''evt1'') = Inr ()"
    by (simp add: clients_ok_def)
  have n: "fst (notify env_full clients_ok ana) = Inr ()"
    by (simp add: ana_notify clients_ok_def)
  from confirmed_booking [OF ana_present env_full_db ana_start ana_end av add ins upd n]
  show ?thesis
    by (simp add: ana_notify env_full_calendar)
qed

text \<open>
  C1 as stated fails. The sample request has all required fields, the calendar is free
  and the datastore is configured; the record is created and confirmed, but the message
  client throws, and the answer is 500, not 200.
\<close>

theorem failed_notification_answers_500:
  "\<not> missing_required ana \<and> db env_full
   \<and> fst (isAvailable env_full clients_sms_down 1748768400000 1748772000000) = Inr True
   \<and> book env_full lisbon clients_sms_down ana =
     (\<lparr>res_status = 500, res_json = InternalJson ''Erro interno'' (ClientError ''Unreachable'')\<rparr>,
      [EventsList (list_query env_full 1748768400000 1748772000000),
       BookingsAdd (booking_doc ana),
       EventsInsert ''primary'' (calendar_event ana 1748768400000 1748772000000),
       BookingRefUpdate ''bk1'' (confirmed_doc ''evt1''),
       MessagesCreate \<lparr>msg_from = ''whatsapp:+14155238886'', msg_to = ''whatsapp:+351911111111'',
                        msg_body = bodyMsg ana\<rparr>,
       ConsoleError (ClientError ''Unreachable'')])"
proof -
  have av: "fst (isAvailable env_full clients_sms_down 1748768400000 1748772000000) = Inr True"
    by (simp add: isAvailable_fst clients_sms_down_def clients_ok_def)
  have add: "bookings_add clients_sms_down (booking_doc ana) = Inr ''bk1''"
    by (simp add: clients_sms_down_def clients_ok_def)
  have ins: "events_insert clients_sms_down (CALENDAR_ID env_full)
               (calendar_event ana 1748768400000 1748772000000) = Inr ''evt1''"
    by (simp add: clients_sms_down_def clients_ok_def)
  have upd: "bookingRef_update clients_sms_down ''bk1'' (confirmed_doc ''evt1'') = Inr ()"
    by (simp add: clients_sms_down_def clients_ok_def)
  from run_with_db [OF ana_present env_full_db ana_start ana_end av add ins upd]
  have "book env_full lisbon clients_sms_down ana =
     (\<lparr>res_status = 500, res_json = InternalJson ''Erro interno'' (ClientError ''Unreachable'')\<rparr>,
      [EventsList (list_query env_full 1748768400000 1748772000000),
       BookingsAdd (booking_doc ana),
       EventsInsert ''primary'' (calendar_event ana 1748768400000 1748772000000),
       BookingRefUpdate ''bk1'' (confirmed_doc ''evt1''),
       MessagesCreate \<lparr>msg_from = ''whatsapp:+14155238886'', msg_to = ''whatsapp:+351911111111'',
                        msg_body = bodyMsg ana\<rparr>,
       ConsoleError (ClientError ''Unreachable'')])"
    by (simp add: ana_notify env_full_calendar clients_sms_down_def clients_ok_def)
  with ana_present env_full_db av show ?thesis
    by simp
qed

text \<open>
  C4, as amended. Without a datastore the handler makes no datastore create and no
  datastore update, on any request. For a request with all required fields whose window is
  computed, with a free calendar, when the calendar insert and the notification step
  succeed, it inserts the calendar event and answers 200 with \<^verbatim>\<open>bookingId: null\<close>.
\<close>

theorem booking_without_persistence:
  assumes "\<not> db e"
  shows "BookingsAdd d \<notin> set (snd (book e rt cl b))
       \<and> BookingRefUpdate r d \<notin> set (snd (book e rt cl b))
       \<and> (\<not> missing_required b
            \<and> toISO rt e (date b) (time b) JUndefined = Inr s
            \<and> endISO_of rt s (duration_or_default b) = Inr en
            \<and> fst (isAvailable e cl s en) = Inr True
            \<and> events_insert cl (CALENDAR_ID e) (calendar_event b s en) = Inr eventId
            \<and> fst (notify e cl b) = Inr ()
          \<longrightarrow> book e rt cl b =
                (\<lparr>res_status = 200, res_json = SuccessJson True eventId None\<rparr>,
                 [EventsList (list_query e s en),
                  EventsInsert (CALENDAR_ID e) (calendar_event b s en)] @ snd (notify e cl b)))"
proof (intro conjI impI)
  show "BookingsAdd d \<notin> set (snd (book e rt cl b))"
    using no_datastore_without_db [OF assms] by blast
  show "BookingRefUpdate r d \<notin> set (snd (book e rt cl b))"
    using no_datastore_without_db [OF assms] by blast
next
  assume h: "\<not> missing_required b
            \<and> toISO rt e (date b) (time b) JUndefined = Inr s
            \<and> endISO_of rt s (duration_or_default b) = Inr en
            \<and> fst (isAvailable e cl s en) = Inr True
            \<and> events_insert cl (CALENDAR_ID e) (calendar_event b s en) = Inr eventId
            \<and> fst (notify e cl b) = Inr ()"
  then have "book e rt cl b =
     (case fst (notify e cl b) of
        Inr u \<Rightarrow>
          (\<lparr>res_status = 200, res_json = SuccessJson True eventId None\<rparr>,
           [EventsList (list_query e s en),
            EventsInsert (CALENDAR_ID e) (calendar_event b s en)] @ snd (notify e cl b))
      | Inl err \<Rightarrow>
          (\<lparr>res_status = 500, res_json = InternalJson ''Erro interno'' err\<rparr>,
           [EventsList (list_query e s en),
            EventsInsert (CALENDAR_ID e) (calendar_event b s en)] @ snd (notify e cl b) @ [ConsoleError err]))"
    using assms by (intro run_without_db) simp_all
  with h show "book e rt cl b =
                (\<lparr>res_status = 200, res_json = SuccessJson True eventId None\<rparr>,
                 [EventsList (list_query e s en),
                  EventsInsert (CALENDAR_ID e) (calendar_event b s en)] @ snd (notify e cl b))"
    by simp
qed

text \<open>
  The sample request with no datastore configured.
\<close>

theorem booking_without_persistence_witness:
  "book env_no_db lisbon clients_ok ana =
     (\<lparr>res_status = 200, res_json = SuccessJson True ''evt1'' None\<rparr>,
      [EventsList (list_query env_no_db 1748768400000 1748772000000),
       EventsInsert ''primary'' (calendar_event ana 1748768400000 1748772000000),
       MessagesCreate \<lparr>msg_from = ''whatsapp:+14155238886'', msg_to = ''whatsapp:+351911111111'',
                        msg_body = bodyMsg ana\<rparr>])
   \<and> BookingsAdd (booking_doc ana) \<notin> set (snd (book env_no_db lisbon clients_ok ana))"
proof -
  have av: "fst (isAvailable env_no_db clients_ok 1748768400000 1748772000000) = Inr True"
    by (simp add: isAvailable_fst clients_ok_def)
  have ins: "events_insert clients_ok (CALENDAR_ID env_no_db)
               (calendar_event ana 1748768400000 1748772000000) = Inr ''evt1''"
    by (simp add: clients_ok_def)
  have n: "fst (notify env_no_db clients_ok ana) = Inr ()"
    by (simp add: ana_notify_no_db clients_ok_def)
  from booking_without_persistence [OF env_no_db_db, where d = "booking_doc ana" and rt = lisbon
      and cl = clients_ok and b = ana and s = 1748768400000 and en = 1748772000000
      and eventId = "''evt1''"]
    ana_present ana_start ana_end av ins n
  show ?thesis
    by (simp add: ana_notify_no_db env_no_db_calendar)
qed

text \<open>
  C4 as stated fails. The sample request is valid, the calendar is free and no datastore
  is configured; the calendar insert throws, and the answer is 500, not 200.
\<close>

theorem failed_insert_without_persistence:
  "\<not> missing_required ana \<and> \<not> db env_no_db
   \<and> fst (isAvailable env_no_db clients_insert_down 1748768400000 1748772000000) = Inr True
   \<and> book env_no_db lisbon clients_insert_down ana =
     (\<lparr>res_status = 500, res_json = InternalJson ''Erro interno'' (ClientError ''Backend Error'')\<rparr>,
      [EventsList (list_query env_no_db 1748768400000 1748772000000),
       EventsInsert ''primary'' (calendar_event ana 1748768400000 1748772000000),
       ConsoleError (ClientError ''Backend Error'')])"
proof -
  have av: "fst (isAvailable env_no_db clients_insert_down 1748768400000 1748772000000) = Inr True"
    by (simp add: isAvailable_fst clients_insert_down_def clients_ok_def)
  have ins: "events_insert clients_insert_down (CALENDAR_ID env_no_db)
               (calendar_event ana 1748768400000 1748772000000) = Inl (ClientError ''Backend Error'')"
    by (simp add: clients_insert_down_def clients_ok_def)
  from insert_fails_without_db [OF ana_present env_no_db_db ana_start ana_end av ins]
    ana_present env_no_db_db av
  show ?thesis
    by (simp add: env_no_db_calendar)
qed

text \<open>
  C8. When the calendar insert throws after the datastore create succeeded, the handler
  answers 500 with the error, and the calls it made are the calendar query, the create of
  the \<^verbatim>\<open>pending\<close> record and the failed insert: the record is not updated (and there is
  no call that would delete it), and no message is sent.
\<close>

theorem insert_failure_leaves_pending:
  assumes "\<not> missing_required b" and "db e"
    and "toISO rt e (date b) (time b) JUndefined = Inr s"
    and "endISO_of rt s (duration_or_default b) = Inr en"
    and "fst (isAvailable e cl s en) = Inr True"
    and "bookings_add cl (booking_doc b) = Inr ref"
    and "events_insert cl (CALENDAR_ID e) (calendar_event b s en) = Inl err"
  shows "book e rt cl b =
           (\<lparr>res_status = 500, res_json = InternalJson ''Erro interno'' err\<rparr>,
            [EventsList (list_query e s en), BookingsAdd (booking_doc b),
             EventsInsert (CALENDAR_ID e) (calendar_event b s en), ConsoleError err])
         \<and> map_of (booking_doc b) ''status'' = Some (Val (JStr ''pending''))
         \<and> BookingRefUpdate r d \<notin> set (snd (book e rt cl b))
         \<and> MessagesCreate m \<notin> set (snd (book e rt cl b))"
  using insert_fails_with_db [OF assms]
  by (simp add: booking_doc_def)

text \<open>
  The sample request with a calendar whose insert fails.
\<close>

theorem insert_failure_leaves_pending_witness:
  "book env_full lisbon clients_insert_down ana =
     (\<lparr>res_status = 500, res_json = InternalJson ''Erro interno'' (ClientError ''Backend Error'')\<rparr>,
      [EventsList (list_query env_full 1748768400000 1748772000000), BookingsAdd (booking_doc ana),
       EventsInsert ''primary'' (calendar_event ana 1748768400000 1748772000000),
       ConsoleError (ClientError ''Backend Error'')])
   \<and> map_of (booking_doc ana) ''status'' = Some (Val (JStr ''pending''))"
proof -
  have av: "fst (isAvailable env_full clients_insert_down 1748768400000 1748772000000) = Inr True"
    by (simp add: isAvailable_fst clients_insert_down_def clients_ok_def)
  have add: "bookings_add clients_insert_down (booking_doc ana) = Inr ''bk1''"
    by (simp add: clients_insert_down_def clients_ok_def)
  have ins: "events_insert clients_insert_down (CALENDAR_ID env_full)
               (calendar_event ana 1748768400000 1748772000000) = Inl (ClientError ''Backend Error'')"
    by (simp add: clients_insert_down_def clients_ok_def)
  from insert_failure_leaves_pending [OF ana_present env_full_db ana_start ana_end av add ins]
  show ?thesis
    by (simp add: env_full_calendar)
qed

subsection \<open>Time\<close>




text \<open>
  C9. The result of \<^verbatim>\<open>toISO\<close> does not depend on its \<open>tz\<close> argument or on
  \<^verbatim>\<open>DEFAULT_TZ\<close>: with the same runtime, date and time, any two time zone arguments and
  any two environments give the same result.
\<close>

theorem toISO_ignores_timezone:
  "toISO rt e dateStr timeStr tz = toISO rt e' dateStr timeStr tz'"
  by (simp add: toISO_def Let_def)

text \<open>
  An explicit zone against a configured default.
\<close>

theorem toISO_ignores_timezone_witness:
  "toISO lisbon env_full (JStr ''2025-06-01'') (JStr ''10:00'') (JStr ''America/New_York'')
     = toISO lisbon (env_full\<lparr>DEFAULT_TZ := Some ''Asia/Tokyo''\<rparr>)
         (JStr ''2025-06-01'') (JStr ''10:00'') JUndefined"
  using toISO_ignores_timezone [of lisbon env_full "JStr ''2025-06-01''" "JStr ''10:00''"
      "JStr ''America/New_York''" "env_full\<lparr>DEFAULT_TZ := Some ''Asia/Tokyo''\<rparr>" JUndefined]
  by simp

subsection \<open>Notification\<close>

text \<open>
  C7. When the phone is a string, every message the handler sends goes to
  \<^verbatim>\<open>whatsapp:\<close> followed by a number that starts with \<^verbatim>\<open>+\<close>: the phone itself when it
  starts with \<^verbatim>\<open>+\<close>, and \<^verbatim>\<open>+\<close> followed by the phone otherwise.
\<close>

theorem notification_destination:
  assumes "phone b = JStr p" and "MessagesCreate m \<in> set (snd (book e rt cl b))"
  shows "\<exists>dest. msg_to m = ''whatsapp:'' @ dest \<and> startsWith dest ''+''
           \<and> (startsWith p ''+'' \<longrightarrow> dest = p)
           \<and> (\<not> startsWith p ''+'' \<longrightarrow> dest = ''+'' @ p)"
proof -
  from book_effects [OF assms(2)] have "MessagesCreate m \<in> set (snd (book_try e rt cl b))"
    by auto
  from book_try_effects [OF this] have "MessagesCreate m \<in> set (snd (notify e cl b))"
    by auto
  from notify_effects [OF this] assms(1)
  have "msg_to m = ''whatsapp:'' @ (if startsWith p ''+'' then p else ''+'' @ p)"
    by auto
  then show ?thesis
    by (auto simp: startsWith_def)
qed

text \<open>
  The phones 351912345678 and +351912345678 both give the destination +351912345678.
\<close>

theorem notification_destination_witness:
  "MessagesCreate \<lparr>msg_from = ''whatsapp:+14155238886'', msg_to = ''whatsapp:+351912345678'',
                   msg_body = bodyMsg (ana\<lparr>phone := JStr ''351912345678''\<rparr>)\<rparr>
     \<in> set (snd (book env_full lisbon clients_ok (ana\<lparr>phone := JStr ''351912345678''\<rparr>)))
   \<and> MessagesCreate \<lparr>msg_from = ''whatsapp:+14155238886'', msg_to = ''whatsapp:+351912345678'',
                   msg_body = bodyMsg (ana\<lparr>phone := JStr ''+351912345678''\<rparr>)\<rparr>
     \<in> set (snd (book env_full lisbon clients_ok (ana\<lparr>phone := JStr ''+351912345678''\<rparr>)))"
proof -
  have m1: "MessagesCreate \<lparr>msg_from = ''whatsapp:+14155238886'', msg_to = ''whatsapp:+351912345678'',
                   msg_body = bodyMsg (ana\<lparr>phone := JStr ''351912345678''\<rparr>)\<rparr>
     \<in> set (snd (book env_full lisbon clients_ok (ana\<lparr>phone := JStr ''351912345678''\<rparr>)))"
    using sample_message_sent [of "ana\<lparr>phone := JStr ''351912345678''\<rparr>" "''351912345678''"]
    by (simp add: startsWith_def ana_def)
  have m2: "MessagesCreate \<lparr>msg_from = ''whatsapp:+14155238886'', msg_to = ''whatsapp:+351912345678'',
                   msg_body = bodyMsg (ana\<lparr>phone := JStr ''+351912345678''\<rparr>)\<rparr>
     \<in> set (snd (book env_full lisbon clients_ok (ana\<lparr>phone := JStr ''+351912345678''\<rparr>)))"
    using sample_message_sent [of "ana\<lparr>phone := JStr ''+351912345678''\<rparr>" "''+351912345678''"]
    by (simp add: startsWith_def ana_def)
  from notification_destination [OF _ m1, of "''351912345678''"]
    notification_destination [OF _ m2, of "''+351912345678''"] m1 m2
  show ?thesis
    by simp
qed

subsection \<open>Further properties\<close>

text \<open>
  The answer is 400 exactly when one of service, date, time, name, phone is falsy:
  absent, \<^verbatim>\<open>null\<close>, \<^verbatim>\<open>false\<close>, \<^verbatim>\<open>0\<close> or the empty string.
\<close>

theorem status_400_iff_missing:
  "(res_status (fst (book e rt cl b)) = 400) = missing_required b"
proof (cases "missing_required b")
  case True
  then show ?thesis by (simp add: book_def book_try_def ok_def)
next
  case False
  obtain r tr where t: "book_try e rt cl b = (r, tr)"
    by (cases "book_try e rt cl b")
  show ?thesis
  proof (cases r)
    case (Inl err)
    with False t show ?thesis by (simp add: book_def)
  next
    case (Inr res)
    with status_of_try [OF False] t have "res_status res = 409 \<or> res_status res = 200"
      by simp
    with False t Inr show ?thesis by (auto simp: book_def)
  qed
qed

text \<open>
  The sample request with \<^verbatim>\<open>null\<close>, \<^verbatim>\<open>0\<close> and \<^verbatim>\<open>false\<close> for its time, and as it is.
\<close>

theorem status_400_iff_missing_witness:
  "res_status (fst (book env_full lisbon clients_ok (ana\<lparr>time := JNull\<rparr>))) = 400
   \<and> res_status (fst (book env_full lisbon clients_ok (ana\<lparr>time := JNum 0\<rparr>))) = 400
   \<and> res_status (fst (book env_full lisbon clients_ok (ana\<lparr>time := JBool False\<rparr>))) = 400
   \<and> res_status (fst (book env_full lisbon clients_ok ana)) \<noteq> 400"
  using status_400_iff_missing [of env_full lisbon clients_ok "ana\<lparr>time := JNull\<rparr>"]
    status_400_iff_missing [of env_full lisbon clients_ok "ana\<lparr>time := JNum 0\<rparr>"]
    status_400_iff_missing [of env_full lisbon clients_ok "ana\<lparr>time := JBool False\<rparr>"]
    status_400_iff_missing [of env_full lisbon clients_ok ana]
  by (simp add: missing_required_def ana_def)

text \<open>
  When the runtime reads the date and time of a request with all required fields as
  an Invalid Date, \<^verbatim>\<open>toISOString\<close> throws in \<^verbatim>\<open>toISO\<close>: the answer is 500 and no client
  has been called.
\<close>

theorem invalid_date_500:
  assumes "\<not> missing_required b"
    and "date_parse rt (ToString (date b) @ ''T'' @ ToString (time b) @ '':00'') = None"
  shows "book e rt cl b =
           (\<lparr>res_status = 500, res_json = InternalJson ''Erro interno'' RangeError\<rparr>,
            [ConsoleError RangeError])"
  using assms
  by (simp add: flow toISO_def toISOString_def)

text \<open>
  The sample request with a date that is no date.
\<close>

theorem invalid_date_500_witness:
  "book env_full lisbon clients_ok (ana\<lparr>date := JStr ''soon''\<rparr>) =
           (\<lparr>res_status = 500, res_json = InternalJson ''Erro interno'' RangeError\<rparr>,
            [ConsoleError RangeError])"
  using invalid_date_500 [of "ana\<lparr>date := JStr ''soon''\<rparr>" lisbon env_full clients_ok]
  by (simp add: missing_required_def ana_def lisbon_def)

end
